theory Spec2Isabelle
  imports
    Main
    "HOL-Library.Word"
    "HOL-Library.Char_ord"
    "HOL-Library.List_Lexorder"
    "HOL-Library.AList"
    "HOL-Library.Multiset"
begin

unbundle bit_operations_syntax

section \<open>The file explorer of main.cpp\<close>

text \<open>
  The program is a menu around six operations, each a short sequence of calls to the
  C library and the operating system, printing to \<open>cout\<close> and \<open>cerr\<close>. The model keeps
  the two streams as the text written so far, and a log of the file-system calls made, in
  the order the program makes them. An operation takes the state and returns the new one.
\<close>

subsection \<open>Error numbers and the console\<close>

datatype errno =
  EPERM | ENOENT | EIO | EACCES | EEXIST | ENOTDIR | EISDIR | EINVAL | EMFILE
  | ENOTEMPTY | ERANGE | EBUSY | ELOOP | ENAMETOOLONG | ENOSPC | EROFS | EDQUOT

text \<open>The texts of \<open>strerror\<close> in the C library of Linux.\<close>

fun strerror :: "errno \<Rightarrow> string" where
  "strerror EPERM = ''Operation not permitted''"
| "strerror ENOENT = ''No such file or directory''"
| "strerror EIO = ''Input/output error''"
| "strerror EACCES = ''Permission denied''"
| "strerror EEXIST = ''File exists''"
| "strerror ENOTDIR = ''Not a directory''"
| "strerror EISDIR = ''Is a directory''"
| "strerror EINVAL = ''Invalid argument''"
| "strerror EMFILE = ''Too many open files''"
| "strerror ENOTEMPTY = ''Directory not empty''"
| "strerror ERANGE = ''Numerical result out of range''"
| "strerror EBUSY = ''Device or resource busy''"
| "strerror ELOOP = ''Too many levels of symbolic links''"
| "strerror ENAMETOOLONG = ''File name too long''"
| "strerror ENOSPC = ''No space left on device''"
| "strerror EROFS = ''Read-only file system''"
| "strerror EDQUOT = ''Disk quota exceeded''"

datatype call =
  Opendir string | Closedir | Lstat string
  | Fopen string string | Fclose | Remove string | Chdir string | Getcwd nat

record console =
  cout :: string
  cerr :: string
  calls :: "call list"

definition print_out :: "string \<Rightarrow> 'a console_scheme \<Rightarrow> 'a console_scheme" where
  "print_out s st = st\<lparr>cout := cout st @ s\<rparr>"

definition print_err :: "string \<Rightarrow> 'a console_scheme \<Rightarrow> 'a console_scheme" where
  "print_err s st = st\<lparr>cerr := cerr st @ s\<rparr>"

definition logc :: "call \<Rightarrow> 'a console_scheme \<Rightarrow> 'a console_scheme" where
  "logc c st = st\<lparr>calls := calls st @ [c]\<rparr>"

subsection \<open>formatPermissions\<close>

text \<open>
  \<open>mode_t\<close> is an unsigned 32-bit integer. The masks and the two type tests are the
  macros of \<open>sys/stat.h\<close> on Linux (octal 0170000, 0040000, 0120000 and 0400 down to 01).
\<close>

type_synonym mode_t = "32 word"

definition S_IFMT :: mode_t where "S_IFMT = 0xF000"
definition S_IFDIR :: mode_t where "S_IFDIR = 0x4000"
definition S_IFLNK :: mode_t where "S_IFLNK = 0xA000"
definition S_IFREG :: mode_t where "S_IFREG = 0x8000"
definition S_IRUSR :: mode_t where "S_IRUSR = 0x100"
definition S_IWUSR :: mode_t where "S_IWUSR = 0x80"
definition S_IXUSR :: mode_t where "S_IXUSR = 0x40"
definition S_IRGRP :: mode_t where "S_IRGRP = 0x20"
definition S_IWGRP :: mode_t where "S_IWGRP = 0x10"
definition S_IXGRP :: mode_t where "S_IXGRP = 0x8"
definition S_IROTH :: mode_t where "S_IROTH = 0x4"
definition S_IWOTH :: mode_t where "S_IWOTH = 0x2"
definition S_IXOTH :: mode_t where "S_IXOTH = 0x1"

definition S_ISDIR :: "mode_t \<Rightarrow> bool" where
  "S_ISDIR mode \<longleftrightarrow> mode AND S_IFMT = S_IFDIR"

definition S_ISLNK :: "mode_t \<Rightarrow> bool" where
  "S_ISLNK mode \<longleftrightarrow> mode AND S_IFMT = S_IFLNK"

text \<open>
  The string starts as ten dashes and is overwritten in place, one index after the other;
  every index is inside the string.
\<close>

definition formatPermissions :: "mode_t \<Rightarrow> string" where
  "formatPermissions mode =
    (let perms = ''----------'';
         perms = (if S_ISDIR mode then perms[0 := CHR ''d'']
                  else if S_ISLNK mode then perms[0 := CHR ''l'']
                  else perms[0 := CHR ''-'']);
         perms = (if mode AND S_IRUSR \<noteq> 0 then perms[1 := CHR ''r''] else perms);
         perms = (if mode AND S_IWUSR \<noteq> 0 then perms[2 := CHR ''w''] else perms);
         perms = (if mode AND S_IXUSR \<noteq> 0 then perms[3 := CHR ''x''] else perms);
         perms = (if mode AND S_IRGRP \<noteq> 0 then perms[4 := CHR ''r''] else perms);
         perms = (if mode AND S_IWGRP \<noteq> 0 then perms[5 := CHR ''w''] else perms);
         perms = (if mode AND S_IXGRP \<noteq> 0 then perms[6 := CHR ''x''] else perms);
         perms = (if mode AND S_IROTH \<noteq> 0 then perms[7 := CHR ''r''] else perms);
         perms = (if mode AND S_IWOTH \<noteq> 0 then perms[8 := CHR ''w''] else perms);
         perms = (if mode AND S_IXOTH \<noteq> 0 then perms[9 := CHR ''x''] else perms)
     in perms)"

subsection \<open>What the operating system answers to a reader\<close>

text \<open>
  \<open>listFiles\<close>, \<open>showFileDetails\<close> and \<open>searchFile\<close> only read. What they are told is
  a value of \<open>os_view\<close>: for the path given to \<open>opendir\<close>, the error or the entries that
  \<open>readdir\<close> yields until it returns the null pointer, each a name and the type hint
  \<open>d_type\<close>; for the path given to \<open>lstat\<close>, the error or the status; the names the user
  and group databases hold; and the text \<open>localtime\<close> and \<open>strftime\<close> with the format
  \<open>%Y-%m-%d %H:%M:%S\<close> make of a time, which depends on the time zone. The answer to
  \<open>opendir\<close> depends on the path alone: the tree does not change during a call, and
  running out of descriptors is not modelled. The path is the \<open>std::string\<close> of the
  program, and the answer is the one \<open>opendir\<close> gives for its \<open>c_str()\<close>.
\<close>

datatype dtype = DT_UNKNOWN | DT_FIFO | DT_CHR | DT_DIR | DT_BLK | DT_REG | DT_LNK | DT_SOCK

record dirent =
  d_name :: string
  d_type :: dtype

record stat =
  st_mode :: mode_t
  st_uid :: "32 word"
  st_gid :: "32 word"
  st_size :: int
  st_mtime :: int

record os_view =
  dir_stream :: "string \<Rightarrow> errno + dirent list"
  lstat_of :: "string \<Rightarrow> errno + stat"
  pw_name_of :: "32 word \<Rightarrow> string option"
  gr_name_of :: "32 word \<Rightarrow> string option"
  mtime_text :: "int \<Rightarrow> string"

definition opendir ::
  "os_view \<Rightarrow> string \<Rightarrow> 'a console_scheme \<Rightarrow> (errno + dirent list) \<times> 'a console_scheme" where
  "opendir os path st = (dir_stream os path, logc (Opendir path) st)"

definition closedir :: "'a console_scheme \<Rightarrow> 'a console_scheme" where
  "closedir st = logc Closedir st"

definition lstat ::
  "os_view \<Rightarrow> string \<Rightarrow> 'a console_scheme \<Rightarrow> (errno + stat) \<times> 'a console_scheme" where
  "lstat os path st = (lstat_of os path, logc (Lstat path) st)"

subsection \<open>showFileDetails and listFiles\<close>

text \<open>Decimal digits, as \<open>to_string\<close> and the stream's integer output write them.\<close>

fun to_string :: "nat \<Rightarrow> string" where
  "to_string n =
     (if n < 10 then [char_of (48 + n)]
      else to_string (n div 10) @ [char_of (48 + n mod 10)])"

declare to_string.simps [simp del]

definition int_text :: "int \<Rightarrow> string" where
  "int_text i = (if i < 0 then CHR ''-'' # to_string (nat (- i)) else to_string (nat i))"

text \<open>\<open>left << setw(w)\<close>: the text, then blanks up to the width; a longer text is kept whole.\<close>

definition setw_left :: "nat \<Rightarrow> string \<Rightarrow> string" where
  "setw_left w s = s @ replicate (w - length s) CHR '' ''"

definition showFileDetails ::
  "os_view \<Rightarrow> string \<Rightarrow> string \<Rightarrow> 'a console_scheme \<Rightarrow> 'a console_scheme" where
  "showFileDetails os path name st =
     (let full = path @ ''/'' @ name in
      case lstat os full st of
        (Inl e, st1) \<Rightarrow>
          print_err (''  [stat error] '' @ name @ '' : '' @ strerror e @ ''\<newline>'') st1
      | (Inr sb, st1) \<Rightarrow>
          let perms = formatPermissions (st_mode sb);
              owner = (case pw_name_of os (st_uid sb) of
                         Some n \<Rightarrow> n | None \<Rightarrow> to_string (unat (st_uid sb)));
              group = (case gr_name_of os (st_gid sb) of
                         Some n \<Rightarrow> n | None \<Rightarrow> to_string (unat (st_gid sb)));
              timebuf = mtime_text os (st_mtime sb)
          in print_out
               (setw_left 12 perms @ setw_left 8 owner @ setw_left 8 group
                @ setw_left 10 (int_text (st_size sb)) @ setw_left 20 timebuf
                @ '' '' @ name @ ''\<newline>'')
               st1)"

text \<open>The \<open>readdir\<close> loop of \<open>listFiles\<close>: every name but \<open>.\<close> and \<open>..\<close> is pushed back.\<close>

fun collect_names :: "dirent list \<Rightarrow> string list \<Rightarrow> string list" where
  "collect_names [] names = names"
| "collect_names (entry # rest) names =
     (if d_name entry = ''.'' \<or> d_name entry = ''..'' then collect_names rest names
      else collect_names rest (names @ [d_name entry]))"

text \<open>
  \<open>std::sort\<close> on strings compares with \<open><\<close> of \<open>std::string\<close>: lexicographic on the
  bytes read as unsigned, a proper prefix first. That is the order of \<open>string\<close> here
  (\<open>Char_ord\<close> and \<open>List_Lexorder\<close>), and a sorted list of given elements is unique, so
  \<open>sort\<close> stands for it.
\<close>

definition header_row :: string where
  "header_row =
     setw_left 12 ''PERMISSIONS'' @ setw_left 8 ''OWNER'' @ setw_left 8 ''GROUP''
     @ setw_left 10 ''SIZE'' @ setw_left 20 ''MODIFIED'' @ '' NAME\<newline>''"

definition listFiles ::
  "os_view \<Rightarrow> string \<Rightarrow> bool \<Rightarrow> 'a console_scheme \<Rightarrow> 'a console_scheme" where
  "listFiles os path detailed st =
     (case opendir os path st of
        (Inl e, st1) \<Rightarrow>
          print_err (''opendir failed for '' @ path @ '' : '' @ strerror e @ ''\<newline>'') st1
      | (Inr entries, st1) \<Rightarrow>
          let st2 = (if detailed
                     then print_out (replicate 80 CHR ''-'' @ ''\<newline>'') (print_out header_row st1)
                     else print_out (''\<newline>Contents of '' @ path @ '':\<newline>'') st1);
              names = collect_names entries [];
              st3 = closedir st2;
              names = sort names
          in foldl (\<lambda>s name. if detailed then showFileDetails os path name s
                               else print_out (''  - '' @ name @ ''\<newline>'') s)
                   st3 names)"

subsection \<open>searchFile\<close>

text \<open>
  The \<open>readdir\<close> loop of \<open>searchFile\<close> runs its body on every entry in turn. The body may
  call \<open>searchFile\<close> again, which may not return; then the loop does not return either.
\<close>

fun readdir_loop :: "('e \<Rightarrow> 's \<Rightarrow> 's option) \<Rightarrow> 'e list \<Rightarrow> 's \<Rightarrow> 's option" where
  "readdir_loop body [] s = Some s"
| "readdir_loop body (entry # rest) s = Option.bind (body entry s) (readdir_loop body rest)"

lemma readdir_loop_mono [partial_function_mono]:
  assumes "\<And>x s. mono_option (\<lambda>g. body g x s)"
  shows "mono_option (\<lambda>g. readdir_loop (body g) xs s)"
proof (induction xs arbitrary: s)
  case Nil
  show ?case by (simp add: option.const_mono)
next
  case (Cons x xs)
  show ?case
    unfolding readdir_loop.simps
    by (rule bind_mono) (rule assms, rule Cons.IH)
qed

text \<open>
  \<open>searchFile\<close> recurses on directories it is told of, so it is a partial function:
  \<open>None\<close> is the call that never returns.
\<close>

partial_function (option) searchFile ::
  "os_view \<Rightarrow> string \<Rightarrow> string \<Rightarrow> 'a console_scheme \<Rightarrow> 'a console_scheme option" where
  "searchFile os dirname target st =
     (case opendir os dirname st of
        (Inl e, st1) \<Rightarrow> Some st1
      | (Inr entries, st1) \<Rightarrow>
          Option.bind
            (readdir_loop
               (\<lambda>entry s.
                  let name = d_name entry in
                  if name = ''.'' \<or> name = ''..'' then Some s
                  else
                    let full = dirname @ ''/'' @ name in
                    if d_type entry = DT_DIR then searchFile os full target s
                    else if name = target
                         then Some (print_out (''Found: '' @ full @ ''\<newline>'') s)
                         else Some s)
               entries st1)
            (\<lambda>s. Some (closedir s)))"

declare searchFile.simps [code]

text \<open>The body of the loop, by itself: what \<open>searchFile\<close> does with one entry.\<close>

definition search_entry ::
  "os_view \<Rightarrow> string \<Rightarrow> string \<Rightarrow> dirent \<Rightarrow> 'a console_scheme \<Rightarrow> 'a console_scheme option" where
  "search_entry os dirname target entry s =
     (let name = d_name entry in
      if name = ''.'' \<or> name = ''..'' then Some s
      else
        let full = dirname @ ''/'' @ name in
        if d_type entry = DT_DIR then searchFile os full target s
        else if name = target
             then Some (print_out (''Found: '' @ full @ ''\<newline>'') s)
             else Some s)"

text \<open>The directories \<open>searchFile\<close> enters from a directory: the child relation.\<close>

definition subdirs :: "os_view \<Rightarrow> string \<Rightarrow> string list" where
  "subdirs os dirname =
     (case dir_stream os dirname of
        Inl e \<Rightarrow> []
      | Inr entries \<Rightarrow>
          map (\<lambda>entry. dirname @ ''/'' @ d_name entry)
            (filter (\<lambda>entry. d_name entry \<noteq> ''.'' \<and> d_name entry \<noteq> ''..''
                              \<and> d_type entry = DT_DIR) entries))"

definition child_rel :: "os_view \<Rightarrow> (string \<times> string) set" where
  "child_rel os = {(c, d). c \<in> set (subdirs os d)}"

subsection \<open>The name space that createFile, deleteFile and changeDirectory change\<close>

text \<open>
  These three operations change what names exist, so their model holds a name space: a
  table from the absolute path of a node, the list of its components below the root, to
  the node, a regular file with permission bits and contents or a directory with permission
  bits. The working directory is such a path. Path resolution follows POSIX and Linux:
  a path of \<open>PATH_MAX\<close> bytes or more and a component of more than \<open>NAME_MAX\<close> bytes
  are \<open>ENAMETOOLONG\<close>, components are separated by slashes, an empty component and
  \<open>.\<close> stay, \<open>..\<close> goes to the parent (the root is its own parent), every directory
  passed through must exist, be a directory and be open to search, and trailing slashes
  ask for a directory.

  Whether the process may search or write a directory is decided by the operating system
  from the credentials of the process and the owner and bits of the directory; here it is
  the field \<open>permits\<close>, and nothing is assumed of it. What else makes the operating system
  refuse a creation or a removal that the names would allow (no space, a read-only file
  system, a quota, an I/O error, a protected or busy node) is the field \<open>refuses\<close>.
  Symbolic links, and running out of descriptors or of memory, are outside this model:
  a name leads to a file, to a directory or to nothing.
\<close>

type_synonym path = "string list"

datatype inode = File mode_t string | Dir mode_t

type_synonym namespace = "(path \<times> inode) list"

datatype perm = Search | Write

datatype refusal = NoSpace | ReadOnly | Quota | IoError | NotPermitted | Busy

fun refusal_errno :: "refusal \<Rightarrow> errno" where
  "refusal_errno NoSpace = ENOSPC"
| "refusal_errno ReadOnly = EROFS"
| "refusal_errno Quota = EDQUOT"
| "refusal_errno IoError = EIO"
| "refusal_errno NotPermitted = EPERM"
| "refusal_errno Busy = EBUSY"

record world = console +
  fs :: namespace
  cwd :: path
  umask :: mode_t
  uninit :: string
  permits :: "perm \<Rightarrow> path \<Rightarrow> bool"
  refuses :: "call \<Rightarrow> refusal option"

text \<open>
  \<open>uninit\<close> is what an automatic \<open>char\<close> array that was never written reads as when it
  is printed as a C string: \<open>changeDirectory\<close> declares \<open>buf\<close> without an initialiser.
\<close>

text \<open>
  \<open>c_str\<close>: the C library reads a \<open>std::string\<close> through \<open>c_str()\<close>, up to its first
  zero byte; \<open>cin >> name\<close> stops at white space only, so a name may hold one.
\<close>

definition c_str :: "string \<Rightarrow> string" where
  "c_str s = takeWhile (\<lambda>c. c \<noteq> CHR 0x00) s"

definition NAME_MAX :: nat where "NAME_MAX = 255"

definition PATH_MAX :: nat where "PATH_MAX = 4096"

fun split_slash :: "string \<Rightarrow> string list" where
  "split_slash [] = [[]]"
| "split_slash (c # cs) =
     (if c = CHR ''/'' then [] # split_slash cs
      else (case split_slash cs of
              [] \<Rightarrow> [[c]]
            | x # xs \<Rightarrow> (c # x) # xs))"

definition strip_slashes :: "string \<Rightarrow> string" where
  "strip_slashes s = rev (dropWhile (\<lambda>c. c = CHR ''/'') (rev s))"

definition dir_at :: "world \<Rightarrow> path \<Rightarrow> errno + unit" where
  "dir_at w p =
     (case map_of (fs w) p of
        None \<Rightarrow> Inl ENOENT
      | Some (File m content) \<Rightarrow> Inl ENOTDIR
      | Some (Dir m) \<Rightarrow> if permits w Search p then Inr () else Inl EACCES)"

fun walk :: "world \<Rightarrow> path \<Rightarrow> string list \<Rightarrow> errno + path" where
  "walk w cur [] = Inr cur"
| "walk w cur (c # cs) =
     (case dir_at w cur of
        Inl e \<Rightarrow> Inl e
      | Inr ok \<Rightarrow>
          if c = [] \<or> c = ''.'' then walk w cur cs
          else if c = ''..'' then walk w (butlast cur) cs
          else if NAME_MAX < length c then Inl ENAMETOOLONG
          else (case map_of (fs w) (cur @ [c]) of
                  None \<Rightarrow> Inl ENOENT
                | Some node \<Rightarrow> walk w (cur @ [c]) cs))"

text \<open>
  Where a path leads: to the root, when it is made of slashes only, or to a last component
  in a parent directory that is open to search, with whether slashes follow.
\<close>

datatype nameidata = Root | Last path string bool

definition namei :: "world \<Rightarrow> string \<Rightarrow> errno + nameidata" where
  "namei w p =
     (if p = [] then Inl ENOENT
      else if PATH_MAX \<le> length p then Inl ENAMETOOLONG
      else
        let stripped = strip_slashes p;
            start = (if hd p = CHR ''/'' then [] else cwd w)
        in if stripped = [] then Inr Root
           else
             let comps = split_slash stripped in
             case walk w start (butlast comps) of
               Inl e \<Rightarrow> Inl e
             | Inr pp \<Rightarrow>
                 (case dir_at w pp of
                    Inl e \<Rightarrow> Inl e
                  | Inr ok \<Rightarrow> Inr (Last pp (last comps) (last p = CHR ''/''))))"

text \<open>
  The node at the end of a path, when trailing slashes ask for a directory or not; and
  full resolution, as \<open>chdir\<close> and \<open>stat\<close> do it: the path of the node and the node.
\<close>

definition node_at :: "world \<Rightarrow> path \<Rightarrow> bool \<Rightarrow> errno + path \<times> inode" where
  "node_at w q slash =
     (case map_of (fs w) q of
        None \<Rightarrow> Inl ENOENT
      | Some (File fm content) \<Rightarrow>
          (if slash then Inl ENOTDIR else Inr (q, File fm content))
      | Some (Dir dm) \<Rightarrow> Inr (q, Dir dm))"

definition resolve :: "world \<Rightarrow> string \<Rightarrow> errno + path \<times> inode" where
  "resolve w p =
     (case namei w p of
        Inl e \<Rightarrow> Inl e
      | Inr Root \<Rightarrow> node_at w [] True
      | Inr (Last pp c slash) \<Rightarrow>
          if c = ''.'' then node_at w pp True
          else if c = ''..'' then node_at w (butlast pp) True
          else if NAME_MAX < length c then Inl ENAMETOOLONG
          else node_at w (pp @ [c]) slash)"

definition has_child :: "namespace \<Rightarrow> path \<Rightarrow> bool" where
  "has_child t p \<longleftrightarrow> list_ex (\<lambda>(q, node). q \<noteq> [] \<and> butlast q = p) t"

text \<open>
  \<open>fopen\<close> with mode \<open>wx\<close> opens with \<open>O_WRONLY|O_CREAT|O_TRUNC|O_EXCL\<close> and
  permission bits 0666 less the umask: an existing name is \<open>EEXIST\<close> and is left as it
  is. With \<open>O_CREAT\<close> a last component followed by a slash is \<open>EISDIR\<close> before it is
  looked up.
\<close>

definition open_excl :: "world \<Rightarrow> string \<Rightarrow> errno + namespace" where
  "open_excl w p =
     (case namei w p of
        Inl e \<Rightarrow> Inl e
      | Inr Root \<Rightarrow>
          (case node_at w [] True of Inl e \<Rightarrow> Inl e | Inr found \<Rightarrow> Inl EEXIST)
      | Inr (Last pp c slash) \<Rightarrow>
          if c = ''.'' then
            (case node_at w pp True of Inl e \<Rightarrow> Inl e | Inr found \<Rightarrow> Inl EEXIST)
          else if c = ''..'' then
            (case node_at w (butlast pp) True of Inl e \<Rightarrow> Inl e | Inr found \<Rightarrow> Inl EEXIST)
          else if slash then Inl EISDIR
          else if NAME_MAX < length c then Inl ENAMETOOLONG
          else (case map_of (fs w) (pp @ [c]) of
                  Some node \<Rightarrow> Inl EEXIST
                | None \<Rightarrow>
                    if permits w Write pp
                    then Inr ((pp @ [c], File (0x1B6 AND NOT (umask w)) []) # fs w)
                    else Inl EACCES))"

definition fopen_wx :: "string \<Rightarrow> world \<Rightarrow> (errno + unit) \<times> world" where
  "fopen_wx name w =
     (let w1 = logc (Fopen name ''wx'') w in
      case open_excl w name of
        Inl e \<Rightarrow> (Inl e, w1)
      | Inr t \<Rightarrow>
          (case refuses w (Fopen name ''wx'') of
             Some r \<Rightarrow> (Inl (refusal_errno r), w1)
           | None \<Rightarrow> (Inr (), w1\<lparr>fs := t\<rparr>)))"

definition fclose :: "world \<Rightarrow> world" where
  "fclose w = logc Fclose w"

text \<open>
  \<open>remove\<close> of the C library on Linux: \<open>unlink\<close>, and when that fails with
  \<open>EISDIR\<close>, \<open>rmdir\<close>. \<open>unlink\<close> refuses a directory; \<open>rmdir\<close> removes an empty one.
  Both look the last component up, then ask for the right to write the parent.
\<close>

definition unlink :: "world \<Rightarrow> string \<Rightarrow> errno + namespace" where
  "unlink w p =
     (case namei w p of
        Inl e \<Rightarrow> Inl e
      | Inr Root \<Rightarrow> Inl EISDIR
      | Inr (Last pp c slash) \<Rightarrow>
          if c = ''.'' \<or> c = ''..'' then Inl EISDIR
          else if NAME_MAX < length c then Inl ENAMETOOLONG
          else (case map_of (fs w) (pp @ [c]) of
                  None \<Rightarrow> Inl ENOENT
                | Some (Dir dm) \<Rightarrow>
                    if slash then Inl EISDIR
                    else if \<not> permits w Write pp then Inl EACCES
                    else Inl EISDIR
                | Some (File fm content) \<Rightarrow>
                    if slash then Inl ENOTDIR
                    else if \<not> permits w Write pp then Inl EACCES
                    else Inr (AList.delete (pp @ [c]) (fs w))))"

definition rmdir :: "world \<Rightarrow> string \<Rightarrow> errno + namespace" where
  "rmdir w p =
     (case namei w p of
        Inl e \<Rightarrow> Inl e
      | Inr Root \<Rightarrow> Inl EBUSY
      | Inr (Last pp c slash) \<Rightarrow>
          if c = ''.'' then Inl EINVAL
          else if c = ''..'' then Inl ENOTEMPTY
          else if NAME_MAX < length c then Inl ENAMETOOLONG
          else (case map_of (fs w) (pp @ [c]) of
                  None \<Rightarrow> Inl ENOENT
                | Some node \<Rightarrow>
                    if \<not> permits w Write pp then Inl EACCES
                    else (case node of
                            File fm content \<Rightarrow> Inl ENOTDIR
                          | Dir dm \<Rightarrow>
                              if has_child (fs w) (pp @ [c]) then Inl ENOTEMPTY
                              else Inr (AList.delete (pp @ [c]) (fs w)))))"

definition remove_path :: "world \<Rightarrow> string \<Rightarrow> errno + namespace" where
  "remove_path w p =
     (case unlink w p of
        Inr t' \<Rightarrow> Inr t'
      | Inl e \<Rightarrow> if e \<noteq> EISDIR then Inl e else rmdir w p)"

definition remove_file :: "string \<Rightarrow> world \<Rightarrow> (errno + unit) \<times> world" where
  "remove_file name w =
     (let w1 = logc (Remove name) w in
      case remove_path w name of
        Inl e \<Rightarrow> (Inl e, w1)
      | Inr t \<Rightarrow>
          (case refuses w (Remove name) of
             Some r \<Rightarrow> (Inl (refusal_errno r), w1)
           | None \<Rightarrow> (Inr (), w1\<lparr>fs := t\<rparr>)))"

definition chdir :: "string \<Rightarrow> world \<Rightarrow> (errno + unit) \<times> world" where
  "chdir p w =
     (let w1 = logc (Chdir p) w in
      case resolve w p of
        Inl e \<Rightarrow> (Inl e, w1)
      | Inr (q, File fm content) \<Rightarrow> (Inl ENOTDIR, w1)
      | Inr (q, Dir dm) \<Rightarrow>
          if permits w Search q then (Inr (), w1\<lparr>cwd := q\<rparr>) else (Inl EACCES, w1))"

text \<open>
  \<open>getcwd\<close> writes the absolute path and its terminating zero into a buffer of the given
  size, or fails with \<open>ERANGE\<close> and writes nothing when they do not fit.
\<close>

definition path_text :: "path \<Rightarrow> string" where
  "path_text p = (if p = [] then ''/'' else concat (map (\<lambda>c. CHR ''/'' # c) p))"

definition getcwd :: "nat \<Rightarrow> world \<Rightarrow> (errno + string) \<times> world" where
  "getcwd n w =
     (let w1 = logc (Getcwd n) w in
      if length (path_text (cwd w)) + 1 \<le> n then (Inr (path_text (cwd w)), w1)
      else (Inl ERANGE, w1))"

subsection \<open>createFile, deleteFile and changeDirectory\<close>

text \<open>
  The three functions pass \<open>name.c_str()\<close> to the C library and print the whole
  \<open>std::string\<close>.
\<close>

definition createFile :: "string \<Rightarrow> world \<Rightarrow> world" where
  "createFile name w =
     (case fopen_wx (c_str name) w of
        (Inl e, w1) \<Rightarrow>
          if e = EEXIST then print_out (''File already exists: '' @ name @ ''\<newline>'') w1
          else print_err (''fopen failed: '' @ strerror e @ ''\<newline>'') w1
      | (Inr f, w1) \<Rightarrow>
          print_out (''File created: '' @ name @ ''\<newline>'') (fclose w1))"

definition deleteFile :: "string \<Rightarrow> world \<Rightarrow> world" where
  "deleteFile name w =
     (case remove_file (c_str name) w of
        (Inr ok, w1) \<Rightarrow> print_out (''Deleted: '' @ name @ ''\<newline>'') w1
      | (Inl e, w1) \<Rightarrow> print_err (''remove failed: '' @ strerror e @ ''\<newline>'') w1)"

text \<open>
  The result of \<open>getcwd\<close> is not looked at: when it fails, \<open>buf\<close> still holds what it
  held before, and that is printed.
\<close>

definition changeDirectory :: "string \<Rightarrow> world \<Rightarrow> world" where
  "changeDirectory p w =
     (case chdir (c_str p) w of
        (Inr ok, w1) \<Rightarrow>
          (case getcwd 512 w1 of
             (r, w2) \<Rightarrow>
               let buf = (case r of Inr s \<Rightarrow> s | Inl e \<Rightarrow> uninit w2) in
               print_out (''Changed directory to: '' @ buf @ ''\<newline>'') w2)
      | (Inl e, w1) \<Rightarrow> print_err (''chdir failed: '' @ strerror e @ ''\<newline>'') w1)"

subsection \<open>Notions the theorems use\<close>

text \<open>
  The directories below \<open>root\<close>: the child relation on the directories that
  \<open>searchFile\<close> can reach from \<open>root\<close>.
\<close>

definition below :: "os_view \<Rightarrow> string \<Rightarrow> (string \<times> string) set" where
  "below os root = {(c, d). (c, d) \<in> child_rel os \<and> (d, root) \<in> (child_rel os)\<^sup>*}"

text \<open>
  What \<open>searchFile\<close> may do to the console between two states: nothing on \<open>cerr\<close>,
  more text on \<open>cout\<close>, and calls of \<open>opendir\<close> and \<open>closedir\<close> only.
\<close>

definition dir_calls_only :: "'a console_scheme \<Rightarrow> 'a console_scheme \<Rightarrow> bool" where
  "dir_calls_only st st' \<longleftrightarrow>
     cerr st' = cerr st
     \<and> (\<exists>out. cout st' = cout st @ out)
     \<and> (\<exists>cs. calls st' = calls st @ cs
              \<and> list_all (\<lambda>c. c = Closedir \<or> (\<exists>p. c = Opendir p)) cs)"

text \<open>
  A small tree to run the operations on: \<open>root\<close> holds the directory \<open>sub\<close>, the file
  \<open>a.txt\<close>, the directory \<open>locked\<close> that cannot be opened, and \<open>link\<close>, a symbolic
  link to a directory that holds a file \<open>a.txt\<close>; \<open>sub\<close> holds \<open>b.txt\<close> and
  \<open>a.txt\<close>.
\<close>

definition dot :: dirent where "dot = \<lparr>d_name = ''.'', d_type = DT_DIR\<rparr>"

definition dotdot :: dirent where "dotdot = \<lparr>d_name = ''..'', d_type = DT_DIR\<rparr>"

definition demo_os :: os_view where
  "demo_os =
     \<lparr>dir_stream = (\<lambda>p.
         if p = ''root''
         then Inr [dot, dotdot, \<lparr>d_name = ''sub'', d_type = DT_DIR\<rparr>,
                   \<lparr>d_name = ''a.txt'', d_type = DT_REG\<rparr>,
                   \<lparr>d_name = ''locked'', d_type = DT_DIR\<rparr>,
                   \<lparr>d_name = ''link'', d_type = DT_LNK\<rparr>]
         else if p = ''root/sub''
         then Inr [dot, dotdot, \<lparr>d_name = ''b.txt'', d_type = DT_REG\<rparr>,
                   \<lparr>d_name = ''a.txt'', d_type = DT_REG\<rparr>]
         else if p = ''root/locked'' then Inl EACCES
         else if p = ''root/link''
         then Inr [dot, dotdot, \<lparr>d_name = ''a.txt'', d_type = DT_REG\<rparr>]
         else Inl ENOENT),
       lstat_of = (\<lambda>p. Inl ENOENT),
       pw_name_of = (\<lambda>u. None),
       gr_name_of = (\<lambda>g. None),
       mtime_text = (\<lambda>t. [])\<rparr>"

definition blank :: console where
  "blank = \<lparr>cout = [], cerr = [], calls = []\<rparr>"

text \<open>The names of a directory stream without \<open>.\<close> and \<open>..\<close>, in the order of the stream.\<close>

definition entry_names :: "dirent list \<Rightarrow> string list" where
  "entry_names es = map d_name (filter (\<lambda>e. d_name e \<noteq> ''.'' \<and> d_name e \<noteq> ''..'') es)"


text \<open>
  A view in which every directory holds a directory \<open>again\<close>: what a cycle that the type
  hint presents as real directories looks like to the search.
\<close>

definition endless_os :: os_view where
  "endless_os =
     \<lparr>dir_stream = (\<lambda>p. Inr [dot, dotdot, \<lparr>d_name = ''again'', d_type = DT_DIR\<rparr>]),
       lstat_of = (\<lambda>p. Inl ENOENT),
       pw_name_of = (\<lambda>u. None),
       gr_name_of = (\<lambda>g. None),
       mtime_text = (\<lambda>t. [])\<rparr>"

text \<open>
  A directory tree as the directory streams present it to \<open>searchFile\<close>: a directory
  that does not open, or one that opens with its entries in the order of the stream, each
  entry with what is below it. What is below an entry counts only when the entry is not
  \<open>.\<close> or \<open>..\<close> and carries the hint \<open>DT_DIR\<close>. \<open>presents os path tree\<close>: the
  streams of \<open>os\<close> from \<open>path\<close> downward are those of \<open>tree\<close>. Such a tree is finite
  and has no cycle.
\<close>

datatype dirtree = Unopenable errno | Opens "(dirent \<times> dirtree) list"

fun presents :: "os_view \<Rightarrow> string \<Rightarrow> dirtree \<Rightarrow> bool" where
  "presents os path (Unopenable e) \<longleftrightarrow> dir_stream os path = Inl e"
| "presents os path (Opens xs) \<longleftrightarrow>
     dir_stream os path = Inr (map fst xs)
     \<and> (\<forall>x \<in> set xs.
          d_name (fst x) \<noteq> ''.'' \<and> d_name (fst x) \<noteq> ''..'' \<and> d_type (fst x) = DT_DIR
          \<longrightarrow> presents os (path @ ''/'' @ d_name (fst x)) (snd x))"

text \<open>
  What claim C6 says the search reports, in the words of the specification. The files of
  a tree are its entries that are not directories, at any depth, each with its full path,
  listed depth first: the files below a directory stand where the directory stands among
  the entries of its parent. The search reports the full path of every file whose name is
  the target, equal byte for byte; a path is reported as often as it is listed, and the
  first match does not end the list.
\<close>

fun files_in :: "string \<Rightarrow> dirtree \<Rightarrow> (string \<times> string) list" where
  "files_in path (Unopenable e) = []"
| "files_in path (Opens xs) =
     concat (map (\<lambda>x.
        if d_name (fst x) = ''.'' \<or> d_name (fst x) = ''..'' then []
        else if d_type (fst x) = DT_DIR
             then files_in (path @ ''/'' @ d_name (fst x)) (snd x)
             else [(path @ ''/'' @ d_name (fst x), d_name (fst x))]) xs)"

definition reported :: "string \<Rightarrow> string \<Rightarrow> dirtree \<Rightarrow> string list" where
  "reported root target tree =
     map fst (filter (\<lambda>file. snd file = target) (files_in root tree))"




text \<open>The tree that \<open>demo_os\<close> presents from \<open>root\<close>.\<close>

definition demo_tree :: dirtree where
  "demo_tree =
     Opens [(dot, Unopenable ENOENT), (dotdot, Unopenable ENOENT),
            (\<lparr>d_name = ''sub'', d_type = DT_DIR\<rparr>,
               Opens [(dot, Unopenable ENOENT), (dotdot, Unopenable ENOENT),
                      (\<lparr>d_name = ''b.txt'', d_type = DT_REG\<rparr>, Unopenable ENOTDIR),
                      (\<lparr>d_name = ''a.txt'', d_type = DT_REG\<rparr>, Unopenable ENOTDIR)]),
            (\<lparr>d_name = ''a.txt'', d_type = DT_REG\<rparr>, Unopenable ENOTDIR),
            (\<lparr>d_name = ''locked'', d_type = DT_DIR\<rparr>, Unopenable EACCES),
            (\<lparr>d_name = ''link'', d_type = DT_LNK\<rparr>, Unopenable ENOTDIR)]"

text \<open>
  A name space to run the three changing operations on: below the root the empty
  directory \<open>d\<close>, the directory \<open>e\<close> with the file \<open>f\<close>, and the file \<open>g\<close>; the working
  directory is the root, and the operating system permits everything and refuses nothing.
\<close>

definition demo_world :: world where
  "demo_world =
     \<lparr>cout = [], cerr = [], calls = [],
      fs = [([], Dir 0x1ED), ([''d''], Dir 0x1ED), ([''e''], Dir 0x1ED),
            ([''e'', ''f''], File 0x1A4 ''hi''), ([''g''], File 0x1A4 ''yo'')],
      cwd = [], umask = 0x12, uninit = [],
      permits = (\<lambda>k q. True), refuses = (\<lambda>c. None)\<rparr>"

text \<open>
  A name space with a deep working directory: two nested directories with names of 255
  bytes, the longest a name may be on Linux, so that the absolute path of the inner one
  has 512 bytes.
\<close>

definition deep_world :: world where
  "deep_world =
     \<lparr>cout = [], cerr = [], calls = [],
      fs = [([], Dir 0x1ED), ([replicate 255 CHR ''a''], Dir 0x1ED),
            ([replicate 255 CHR ''a'', replicate 255 CHR ''b''], Dir 0x1ED)],
      cwd = [replicate 255 CHR ''a''], umask = 0x12, uninit = ''(what the buffer held)'',
      permits = (\<lambda>k q. True), refuses = (\<lambda>c. None)\<rparr>"

section \<open>Properties\<close>

subsection \<open>The console\<close>

lemma cout_print_out [simp]: "cout (print_out s st) = cout st @ s"
  and cerr_print_out [simp]: "cerr (print_out s st) = cerr st"
  and calls_print_out [simp]: "calls (print_out s st) = calls st"
  by (simp_all add: print_out_def)

lemma cout_print_err [simp]: "cout (print_err s st) = cout st"
  and cerr_print_err [simp]: "cerr (print_err s st) = cerr st @ s"
  and calls_print_err [simp]: "calls (print_err s st) = calls st"
  by (simp_all add: print_err_def)

lemma cout_logc [simp]: "cout (logc c st) = cout st"
  and cerr_logc [simp]: "cerr (logc c st) = cerr st"
  and calls_logc [simp]: "calls (logc c st) = calls st @ [c]"
  by (simp_all add: logc_def)

lemma fs_print_out [simp]: "fs (print_out s w) = fs w"
  and cwd_print_out [simp]: "cwd (print_out s w) = cwd w"
  and fs_print_err [simp]: "fs (print_err s w) = fs w"
  and cwd_print_err [simp]: "cwd (print_err s w) = cwd w"
  and fs_logc [simp]: "fs (logc c w) = fs w"
  and cwd_logc [simp]: "cwd (logc c w) = cwd w"
  by (simp_all add: print_out_def print_err_def logc_def)

subsection \<open>formatPermissions\<close>

lemma upd_at:
  "(x0 # xs)[0 := v] = v # xs"
  "(x0 # x1 # xs)[1 := v] = x0 # v # xs"
  "(x0 # x1 # x2 # xs)[2 := v] = x0 # x1 # v # xs"
  "(x0 # x1 # x2 # x3 # xs)[3 := v] = x0 # x1 # x2 # v # xs"
  "(x0 # x1 # x2 # x3 # x4 # xs)[4 := v] = x0 # x1 # x2 # x3 # v # xs"
  "(x0 # x1 # x2 # x3 # x4 # x5 # xs)[5 := v] = x0 # x1 # x2 # x3 # x4 # v # xs"
  "(x0 # x1 # x2 # x3 # x4 # x5 # x6 # xs)[6 := v] = x0 # x1 # x2 # x3 # x4 # x5 # v # xs"
  "(x0 # x1 # x2 # x3 # x4 # x5 # x6 # x7 # xs)[7 := v]
     = x0 # x1 # x2 # x3 # x4 # x5 # x6 # v # xs"
  "(x0 # x1 # x2 # x3 # x4 # x5 # x6 # x7 # x8 # xs)[8 := v]
     = x0 # x1 # x2 # x3 # x4 # x5 # x6 # x7 # v # xs"
  "(x0 # x1 # x2 # x3 # x4 # x5 # x6 # x7 # x8 # x9 # xs)[9 := v]
     = x0 # x1 # x2 # x3 # x4 # x5 # x6 # x7 # x8 # v # xs"
  by (simp_all add: numeral_eq_Suc)

lemma formatPermissions_chars:
  "formatPermissions mode =
     [if S_ISDIR mode then CHR ''d'' else if S_ISLNK mode then CHR ''l'' else CHR ''-'',
      if mode AND S_IRUSR \<noteq> 0 then CHR ''r'' else CHR ''-'',
      if mode AND S_IWUSR \<noteq> 0 then CHR ''w'' else CHR ''-'',
      if mode AND S_IXUSR \<noteq> 0 then CHR ''x'' else CHR ''-'',
      if mode AND S_IRGRP \<noteq> 0 then CHR ''r'' else CHR ''-'',
      if mode AND S_IWGRP \<noteq> 0 then CHR ''w'' else CHR ''-'',
      if mode AND S_IXGRP \<noteq> 0 then CHR ''x'' else CHR ''-'',
      if mode AND S_IROTH \<noteq> 0 then CHR ''r'' else CHR ''-'',
      if mode AND S_IWOTH \<noteq> 0 then CHR ''w'' else CHR ''-'',
      if mode AND S_IXOTH \<noteq> 0 then CHR ''x'' else CHR ''-'']"
proof -
  have keep: "\<And>c (xs::string) i v. (if c then xs[i := v] else xs) = xs[i := (if c then v else xs ! i)]"
    by simp
  have either: "\<And>c (xs::string) i u v.
      (if c then xs[i := u] else xs[i := v]) = xs[i := (if c then u else v)]"
    by simp
  show ?thesis
    unfolding formatPermissions_def Let_def either keep
    by (simp add: upd_at split del: if_split cong: if_cong)
qed

lemma perm_bits:
  fixes mode :: mode_t
  assumes "mode AND 0x1FF = 0x1EC"
  shows "mode AND S_IRUSR \<noteq> 0" "mode AND S_IWUSR \<noteq> 0" "mode AND S_IXUSR \<noteq> 0"
        "mode AND S_IRGRP \<noteq> 0" "mode AND S_IWGRP = 0" "mode AND S_IXGRP \<noteq> 0"
        "mode AND S_IROTH \<noteq> 0" "mode AND S_IWOTH = 0" "mode AND S_IXOTH = 0"
proof -
  have sub: "\<And>b::mode_t. b AND 0x1FF = b \<Longrightarrow> mode AND b = 0x1EC AND b"
  proof -
    fix b :: mode_t
    assume b: "b AND 0x1FF = b"
    have "mode AND b = mode AND (0x1FF AND b)" using b by (simp add: and.commute)
    also have "\<dots> = (mode AND 0x1FF) AND b" by (simp add: and.assoc)
    finally show "mode AND b = 0x1EC AND b" using assms by simp
  qed
  show "mode AND S_IRUSR \<noteq> 0" "mode AND S_IWUSR \<noteq> 0" "mode AND S_IXUSR \<noteq> 0"
        "mode AND S_IRGRP \<noteq> 0" "mode AND S_IWGRP = 0" "mode AND S_IXGRP \<noteq> 0"
        "mode AND S_IROTH \<noteq> 0" "mode AND S_IWOTH = 0" "mode AND S_IXOTH = 0"
    by (simp_all add: sub S_IRUSR_def S_IWUSR_def S_IXUSR_def S_IRGRP_def S_IWGRP_def
        S_IXGRP_def S_IROTH_def S_IWOTH_def S_IXOTH_def)
qed

text \<open>
  Claim C8: for every mode the permission string has ten characters, the type character
  (\<open>d\<close> for a directory, \<open>l\<close> for a symbolic link, \<open>-\<close> otherwise) and then, for
  owner, group and others, \<open>r\<close>, \<open>w\<close> and \<open>x\<close> where the bit is set and \<open>-\<close> where it
  is clear. Every regular file with the bits rwxr-xr-- gives \<open>-rwxr-xr--\<close>, every directory
  with these bits \<open>drwxr-xr--\<close>; the nine permission bits are those of \<open>0x1FF\<close>, octal
  0777, and rwxr-xr-- is \<open>0x1EC\<close>, octal 0754.
\<close>

theorem formatPermissions_layout:
  "formatPermissions mode =
     [if S_ISDIR mode then CHR ''d'' else if S_ISLNK mode then CHR ''l'' else CHR ''-'',
      if mode AND S_IRUSR \<noteq> 0 then CHR ''r'' else CHR ''-'',
      if mode AND S_IWUSR \<noteq> 0 then CHR ''w'' else CHR ''-'',
      if mode AND S_IXUSR \<noteq> 0 then CHR ''x'' else CHR ''-'',
      if mode AND S_IRGRP \<noteq> 0 then CHR ''r'' else CHR ''-'',
      if mode AND S_IWGRP \<noteq> 0 then CHR ''w'' else CHR ''-'',
      if mode AND S_IXGRP \<noteq> 0 then CHR ''x'' else CHR ''-'',
      if mode AND S_IROTH \<noteq> 0 then CHR ''r'' else CHR ''-'',
      if mode AND S_IWOTH \<noteq> 0 then CHR ''w'' else CHR ''-'',
      if mode AND S_IXOTH \<noteq> 0 then CHR ''x'' else CHR ''-'']
   \<and> length (formatPermissions mode) = 10
   \<and> (mode AND S_IFMT = S_IFREG \<and> mode AND 0x1FF = 0x1EC
        \<longrightarrow> formatPermissions mode = ''-rwxr-xr--'')
   \<and> (S_ISDIR mode \<and> mode AND 0x1FF = 0x1EC
        \<longrightarrow> formatPermissions mode = ''drwxr-xr--'')"
proof (intro conjI impI)
  show "length (formatPermissions mode) = 10"
    by (simp add: formatPermissions_chars)
next
  assume a: "mode AND S_IFMT = S_IFREG \<and> mode AND 0x1FF = 0x1EC"
  then have "\<not> S_ISDIR mode" "\<not> S_ISLNK mode"
    by (simp_all add: S_ISDIR_def S_ISLNK_def S_IFREG_def S_IFDIR_def S_IFLNK_def)
  with a show "formatPermissions mode = ''-rwxr-xr--''"
    by (simp add: formatPermissions_chars perm_bits)
next
  assume a: "S_ISDIR mode \<and> mode AND 0x1FF = 0x1EC"
  then show "formatPermissions mode = ''drwxr-xr--''"
    by (simp add: formatPermissions_chars perm_bits)
qed (rule formatPermissions_chars)

theorem formatPermissions_layout_witness:
  "formatPermissions 0x81EC = ''-rwxr-xr--'' \<and> formatPermissions 0x41EC = ''drwxr-xr--''
   \<and> formatPermissions 0xA1FF = ''lrwxrwxrwx''"
proof -
  have r: "(0x81EC :: mode_t) AND S_IFMT = S_IFREG \<and> (0x81EC :: mode_t) AND 0x1FF = 0x1EC"
    by (simp add: S_IFMT_def S_IFREG_def)
  have d: "S_ISDIR 0x41EC \<and> (0x41EC :: mode_t) AND 0x1FF = 0x1EC"
    by (simp add: S_ISDIR_def S_IFMT_def S_IFDIR_def)
  have l: "formatPermissions 0xA1FF = ''lrwxrwxrwx''"
    using formatPermissions_layout [of "0xA1FF"]
    by (simp add: S_ISDIR_def S_ISLNK_def S_IFMT_def S_IFDIR_def S_IFLNK_def
        S_IRUSR_def S_IWUSR_def S_IXUSR_def S_IRGRP_def S_IWGRP_def
        S_IXGRP_def S_IROTH_def S_IWOTH_def S_IXOTH_def)
  show ?thesis
    using formatPermissions_layout [of "0x81EC"] formatPermissions_layout [of "0x41EC"] r d l
    by blast
qed

text \<open>
  Claim C9: \<open>formatPermissions\<close> is a total function of the mode; its result always has
  ten characters, the first one of \<open>d\<close>, \<open>l\<close>, \<open>-\<close>, and the one at position \<open>i + 1\<close>
  either the letter of the slot, \<open>rwxrwxrwx ! i\<close>, or \<open>-\<close>, whatever the bits of the mode
  are.
\<close>

theorem formatPermissions_total:
  "length (formatPermissions mode) = 10
   \<and> formatPermissions mode ! 0 \<in> {CHR ''d'', CHR ''l'', CHR ''-''}
   \<and> (\<forall>i < 9. formatPermissions mode ! (i + 1) \<in> {''rwxrwxrwx'' ! i, CHR ''-''})"
proof (intro conjI allI impI)
  show "length (formatPermissions mode) = 10"
    by (simp add: formatPermissions_chars)
  show "formatPermissions mode ! 0 \<in> {CHR ''d'', CHR ''l'', CHR ''-''}"
    by (simp add: formatPermissions_chars)
  fix i :: nat
  assume "i < 9"
  then have "i = 0 \<or> i = 1 \<or> i = 2 \<or> i = 3 \<or> i = 4 \<or> i = 5 \<or> i = 6 \<or> i = 7 \<or> i = 8"
    by arith
  then show "formatPermissions mode ! (i + 1) \<in> {''rwxrwxrwx'' ! i, CHR ''-''}"
    by (elim disjE) (simp_all add: formatPermissions_chars)
qed

theorem formatPermissions_total_witness:
  "length (formatPermissions 0xFFFFFFFF) = 10
   \<and> formatPermissions 0xFFFFFFFF ! 0 \<in> {CHR ''d'', CHR ''l'', CHR ''-''}
   \<and> formatPermissions 0xFFFFFFFF ! (8 + 1) \<in> {''rwxrwxrwx'' ! 8, CHR ''-''}"
proof -
  have "(8::nat) < 9 \<longrightarrow>
        formatPermissions 0xFFFFFFFF ! (8 + 1) \<in> {''rwxrwxrwx'' ! 8, CHR ''-''}"
    using formatPermissions_total [of "0xFFFFFFFF"] by blast
  then show ?thesis
    using formatPermissions_total [of "0xFFFFFFFF"] by simp
qed

subsection \<open>listFiles\<close>

lemma collect_names_filter:
  "collect_names entries acc = acc @ entry_names entries"
  by (induction entries arbitrary: acc) (simp_all add: entry_names_def)

text \<open>The order of strings is the order of their bytes, a proper prefix first.\<close>

lemma string_less_bytewise:
  "([] :: string) < y # ys"
  "\<not> (xs :: string) < []"
  "(x # xs :: string) < y # ys
     \<longleftrightarrow> (of_char x :: nat) < of_char y \<or> x = y \<and> xs < ys"
  by (simp_all add: less_char_def)

lemma foldl_print_names:
  "cout (foldl (\<lambda>s name. print_out (f name) s) st names) = cout st @ concat (map f names)
   \<and> cerr (foldl (\<lambda>s name. print_out (f name) s) st names) = cerr st
   \<and> calls (foldl (\<lambda>s name. print_out (f name) s) st names) = calls st"
  by (induction names arbitrary: st) simp_all

text \<open>
  Claim C3: when the directory opens, the plain listing prints the heading and then one
  line for each name of the directory stream other than \<open>.\<close> and \<open>..\<close>, in ascending
  order of the bytes; when the stream holds every name once, as a directory does, the
  printed names are strictly ascending, so none is printed twice. When the directory does
  not open, the error goes to \<open>cerr\<close> and nothing is printed on \<open>cout\<close>.
\<close>

theorem listFiles_plain:
  "(dir_stream os path = Inr entries \<longrightarrow>
      (let names = sort (entry_names entries) in
         cout (listFiles os path False st)
           = cout st @ ''\<newline>Contents of '' @ path @ '':\<newline>''
             @ concat (map (\<lambda>n. ''  - '' @ n @ ''\<newline>'') names)
         \<and> cerr (listFiles os path False st) = cerr st
         \<and> sorted names
         \<and> set names = d_name ` set entries - {''.'', ''..''}
         \<and> (distinct (map d_name entries) \<longrightarrow> distinct names \<and> sorted_wrt (<) names)))
   \<and> (dir_stream os path = Inl e \<longrightarrow>
         cout (listFiles os path False st) = cout st
         \<and> cerr (listFiles os path False st)
             = cerr st @ ''opendir failed for '' @ path @ '' : '' @ strerror e @ ''\<newline>'')"
proof (intro conjI impI)
  assume open_ok: "dir_stream os path = Inr entries"
  define names where
    "names = sort (entry_names entries)"
  have run: "listFiles os path False st
      = foldl (\<lambda>s name. print_out (''  - '' @ name @ ''\<newline>'') s)
          (closedir (print_out (''\<newline>Contents of '' @ path @ '':\<newline>'')
             (logc (Opendir path) st)))
          names"
    by (simp add: listFiles_def opendir_def open_ok collect_names_filter names_def)
  have out: "cout (listFiles os path False st)
      = cout st @ ''\<newline>Contents of '' @ path @ '':\<newline>''
        @ concat (map (\<lambda>n. ''  - '' @ n @ ''\<newline>'') names)"
    unfolding run by (simp add: foldl_print_names closedir_def)
  have err: "cerr (listFiles os path False st) = cerr st"
    unfolding run by (simp add: foldl_print_names closedir_def)
  have srt: "sorted names" by (simp add: names_def)
  have st: "set names = d_name ` set entries - {''.'', ''..''}"
    by (auto simp: names_def entry_names_def)
  have dst: "distinct (map d_name entries) \<Longrightarrow> distinct names \<and> sorted_wrt (<) names"
    by (simp add: names_def entry_names_def strict_sorted_iff distinct_map_filter)
  show "let names = sort (entry_names entries) in
         cout (listFiles os path False st)
           = cout st @ ''\<newline>Contents of '' @ path @ '':\<newline>''
             @ concat (map (\<lambda>n. ''  - '' @ n @ ''\<newline>'') names)
         \<and> cerr (listFiles os path False st) = cerr st
         \<and> sorted names
         \<and> set names = d_name ` set entries - {''.'', ''..''}
         \<and> (distinct (map d_name entries) \<longrightarrow> distinct names \<and> sorted_wrt (<) names)"
    using out err srt st dst unfolding names_def Let_def by blast
next
  assume "dir_stream os path = Inl e"
  then show "cout (listFiles os path False st) = cout st"
    by (simp add: listFiles_def opendir_def)
next
  assume "dir_stream os path = Inl e"
  then show "cerr (listFiles os path False st)
      = cerr st @ ''opendir failed for '' @ path @ '' : '' @ strerror e @ ''\<newline>''"
    by (simp add: listFiles_def opendir_def)
qed

theorem listFiles_plain_witness:
  "cout (listFiles demo_os ''root'' False blank)
     = ''\<newline>Contents of root:\<newline>  - a.txt\<newline>  - link\<newline>  - locked\<newline>  - sub\<newline>''
   \<and> cerr (listFiles demo_os ''root'' False blank) = []
   \<and> sorted_wrt (<) [''a.txt'', ''link'', ''locked'', ''sub'' :: string]
   \<and> cout (listFiles demo_os ''nowhere'' False blank) = []
   \<and> cerr (listFiles demo_os ''nowhere'' False blank)
       = ''opendir failed for nowhere : No such file or directory\<newline>''"
proof -
  have a: "dir_stream demo_os ''root''
      = Inr [dot, dotdot, \<lparr>d_name = ''sub'', d_type = DT_DIR\<rparr>,
             \<lparr>d_name = ''a.txt'', d_type = DT_REG\<rparr>,
             \<lparr>d_name = ''locked'', d_type = DT_DIR\<rparr>,
             \<lparr>d_name = ''link'', d_type = DT_LNK\<rparr>]"
    by (simp add: demo_os_def)
  have b: "dir_stream demo_os ''nowhere'' = Inl ENOENT"
    by (simp add: demo_os_def)
  have s: "sort [''sub'', ''a.txt'', ''locked'', ''link'']
      = [''a.txt'', ''link'', ''locked'', ''sub'' :: string]"
    by (simp add: less_eq_char_def less_char_def)
  from listFiles_plain [where os = demo_os and path = "''root''" and st = blank and e = ENOENT] a
  have "cout (listFiles demo_os ''root'' False blank)
     = ''\<newline>Contents of root:\<newline>  - a.txt\<newline>  - link\<newline>  - locked\<newline>  - sub\<newline>''
   \<and> cerr (listFiles demo_os ''root'' False blank) = []
   \<and> sorted_wrt (<) [''a.txt'', ''link'', ''locked'', ''sub'' :: string]"
    by (simp add: Let_def s blank_def dot_def dotdot_def entry_names_def)
  moreover
  from listFiles_plain [where os = demo_os and path = "''nowhere''" and st = blank and e = ENOENT] b
  have "cout (listFiles demo_os ''nowhere'' False blank) = []
   \<and> cerr (listFiles demo_os ''nowhere'' False blank)
       = ''opendir failed for nowhere : No such file or directory\<newline>''"
    by (simp add: blank_def)
  ultimately show ?thesis by blast
qed

subsection \<open>searchFile\<close>

lemma search_entry_fun:
  "search_entry os dirname target =
     (\<lambda>entry s.
        let name = d_name entry in
        if name = ''.'' \<or> name = ''..'' then Some s
        else
          let full = dirname @ ''/'' @ name in
          if d_type entry = DT_DIR then searchFile os full target s
          else if name = target
               then Some (print_out (''Found: '' @ full @ ''\<newline>'') s)
               else Some s)"
  by (intro ext) (simp add: search_entry_def)

lemma searchFile_body:
  "searchFile os dirname target st =
     (case dir_stream os dirname of
        Inl e \<Rightarrow> Some (logc (Opendir dirname) st)
      | Inr entries \<Rightarrow>
          Option.bind
            (readdir_loop (search_entry os dirname target) entries (logc (Opendir dirname) st))
            (\<lambda>s. Some (closedir s)))"
  by (subst searchFile.simps) (simp add: opendir_def search_entry_fun split: sum.splits)

lemma readdir_loop_append:
  "readdir_loop body (xs @ ys) s = Option.bind (readdir_loop body xs s) (readdir_loop body ys)"
  by (induction xs arbitrary: s) (simp_all add: Option.bind_assoc cong: Option.bind_cong)

lemma readdir_loop_returns:
  assumes "\<And>e s. e \<in> set es \<Longrightarrow> \<exists>s'. body e s = Some s'"
  shows "\<exists>s'. readdir_loop body es s = Some s'"
  using assms
proof (induction es arbitrary: s)
  case Nil
  show ?case by simp
next
  case (Cons e es)
  from Cons.prems [of e s] obtain s1 where s1: "body e s = Some s1" by auto
  from Cons.IH [of s1] Cons.prems obtain s2 where "readdir_loop body es s1 = Some s2"
    by auto
  with s1 show ?case by simp
qed

lemma readdir_loop_rel:
  assumes loop: "readdir_loop body es s = Some s'"
    and step: "\<And>e a b. e \<in> set es \<Longrightarrow> body e a = Some b \<Longrightarrow> R a b"
    and refl: "\<And>a. R a a"
    and trans: "\<And>a b c. R a b \<Longrightarrow> R b c \<Longrightarrow> R a c"
  shows "R s s'"
  using loop step
proof (induction es arbitrary: s)
  case Nil
  then show ?case using refl by simp
next
  case (Cons e es)
  from Cons.prems(1) obtain s1 where s1: "body e s = Some s1"
    and rest: "readdir_loop body es s1 = Some s'"
    by (auto simp: bind_eq_Some_conv)
  have "R s s1" using Cons.prems(2) [of e s s1] s1 by simp
  moreover have "R s1 s'"
  proof (rule Cons.IH [OF rest])
    fix e0 a b
    assume "e0 \<in> set es" "body e0 a = Some b"
    then show "R a b" using Cons.prems(2) [of e0 a b] by simp
  qed
  ultimately show ?case using trans by blast
qed

lemma dir_calls_only_refl: "dir_calls_only s s"
  by (simp add: dir_calls_only_def)

lemma dir_calls_only_trans:
  "dir_calls_only a b \<Longrightarrow> dir_calls_only b c \<Longrightarrow> dir_calls_only a c"
  unfolding dir_calls_only_def
  by (elim conjE exE) (intro conjI exI [where x = "_ @ _"], simp, simp, simp, simp)

lemma searchFile_dir_calls_only:
  assumes "searchFile os dirname target st = Some st'"
  shows "dir_calls_only st st'"
proof (rule searchFile.raw_induct
    [where P = "\<lambda>os dirname target s s'. dir_calls_only s s'", OF _ assms])
  fix rec_call :: "os_view \<Rightarrow> string \<Rightarrow> string \<Rightarrow> 'a console_scheme \<Rightarrow> 'a console_scheme option"
  fix os dirname target and st st' :: "'a console_scheme"
  assume IH: "\<And>os dirname target st y.
      rec_call os dirname target st = Some y \<Longrightarrow> dir_calls_only st y"
  assume run: "(case opendir os dirname st of
        (Inl e, st1) \<Rightarrow> Some st1
      | (Inr entries, st1) \<Rightarrow>
          Option.bind
            (readdir_loop
               (\<lambda>entry s.
                  let name = d_name entry in
                  if name = ''.'' \<or> name = ''..'' then Some s
                  else
                    let full = dirname @ ''/'' @ name in
                    if d_type entry = DT_DIR then rec_call os full target s
                    else if name = target
                         then Some (print_out (''Found: '' @ full @ ''\<newline>'') s)
                         else Some s)
               entries st1)
            (\<lambda>s. Some (closedir s))) = Some st'"
  show "dir_calls_only st st'"
  proof (cases "dir_stream os dirname")
    case (Inl e)
    with run have "st' = logc (Opendir dirname) st"
      by (simp add: opendir_def)
    then show ?thesis by (simp add: dir_calls_only_def)
  next
    case (Inr entries)
    with run obtain s2 where
      loop: "readdir_loop
               (\<lambda>entry s.
                  let name = d_name entry in
                  if name = ''.'' \<or> name = ''..'' then Some s
                  else
                    let full = dirname @ ''/'' @ name in
                    if d_type entry = DT_DIR then rec_call os full target s
                    else if name = target
                         then Some (print_out (''Found: '' @ full @ ''\<newline>'') s)
                         else Some s)
               entries (logc (Opendir dirname) st) = Some s2"
      and fin: "st' = closedir s2"
      by (auto simp: opendir_def bind_eq_Some_conv)
    have "dir_calls_only (logc (Opendir dirname) st) s2"
    proof (rule readdir_loop_rel [OF loop _ dir_calls_only_refl dir_calls_only_trans])
      fix e and a b :: "'a console_scheme"
      assume "(let name = d_name e in
                  if name = ''.'' \<or> name = ''..'' then Some a
                  else
                    let full = dirname @ ''/'' @ name in
                    if d_type e = DT_DIR then rec_call os full target a
                    else if name = target
                         then Some (print_out (''Found: '' @ full @ ''\<newline>'') a)
                         else Some a) = Some b"
      then show "dir_calls_only a b"
        using IH by (auto simp: Let_def dir_calls_only_def split: if_splits)
    qed
    moreover have "dir_calls_only st (logc (Opendir dirname) st)"
      by (simp add: dir_calls_only_def)
    moreover have "dir_calls_only s2 st'"
      by (simp add: fin closedir_def dir_calls_only_def)
    ultimately show ?thesis
      using dir_calls_only_trans by blast
  qed
qed

lemma demo_search_a:
  "searchFile demo_os ''root'' ''a.txt'' blank
     = Some \<lparr>cout = ''Found: root/sub/a.txt\<newline>Found: root/a.txt\<newline>'', cerr = [],
             calls = [Opendir ''root'', Opendir ''root/sub'', Closedir,
                      Opendir ''root/locked'', Closedir]\<rparr>"
  by code_simp

text \<open>
  Claim C4: a directory that cannot be opened is passed over in silence. The search of
  such a directory returns at once with nothing written on \<open>cout\<close> or \<open>cerr\<close>; where it
  is an entry of a directory being searched, the entries before it and after it are
  searched as they would be, with only the failed \<open>opendir\<close> between them; and no search
  ever writes on \<open>cerr\<close>.
\<close>

theorem searchFile_skips_unopenable:
  "(dir_stream os dirname = Inl e \<longrightarrow>
      (\<exists>st'. searchFile os dirname target st = Some st'
         \<and> cout st' = cout st \<and> cerr st' = cerr st
         \<and> calls st' = calls st @ [Opendir dirname]))
   \<and> (dir_stream os dirname = Inr (before @ entry # after)
        \<and> d_name entry \<noteq> ''.'' \<and> d_name entry \<noteq> ''..'' \<and> d_type entry = DT_DIR
        \<and> dir_stream os (dirname @ ''/'' @ d_name entry) = Inl e \<longrightarrow>
      searchFile os dirname target st
        = Option.bind
            (readdir_loop (search_entry os dirname target) before (logc (Opendir dirname) st))
            (\<lambda>s. Option.bind
                   (readdir_loop (search_entry os dirname target) after
                      (logc (Opendir (dirname @ ''/'' @ d_name entry)) s))
                   (\<lambda>s. Some (closedir s))))
   \<and> (searchFile os dirname target st = Some st' \<longrightarrow> cerr st' = cerr st)"
proof (intro conjI impI)
  assume "dir_stream os dirname = Inl e"
  then show "\<exists>st'. searchFile os dirname target st = Some st'
         \<and> cout st' = cout st \<and> cerr st' = cerr st
         \<and> calls st' = calls st @ [Opendir dirname]"
    by (simp add: searchFile_body)
next
  assume a: "dir_stream os dirname = Inr (before @ entry # after)
        \<and> d_name entry \<noteq> ''.'' \<and> d_name entry \<noteq> ''..'' \<and> d_type entry = DT_DIR
        \<and> dir_stream os (dirname @ ''/'' @ d_name entry) = Inl e"
  then have one: "\<And>s. search_entry os dirname target entry s
      = Some (logc (Opendir (dirname @ ''/'' @ d_name entry)) s)"
    by (simp add: search_entry_def searchFile_body)
  have "readdir_loop (search_entry os dirname target) (before @ entry # after)
          (logc (Opendir dirname) st)
      = Option.bind
          (readdir_loop (search_entry os dirname target) before (logc (Opendir dirname) st))
          (\<lambda>s. readdir_loop (search_entry os dirname target) after
                  (logc (Opendir (dirname @ ''/'' @ d_name entry)) s))"
    by (simp add: readdir_loop_append one cong: Option.bind_cong)
  with a show "searchFile os dirname target st
        = Option.bind
            (readdir_loop (search_entry os dirname target) before (logc (Opendir dirname) st))
            (\<lambda>s. Option.bind
                   (readdir_loop (search_entry os dirname target) after
                      (logc (Opendir (dirname @ ''/'' @ d_name entry)) s))
                   (\<lambda>s. Some (closedir s)))"
    by (simp add: searchFile_body Option.bind_assoc)
next
  assume "searchFile os dirname target st = Some st'"
  from searchFile_dir_calls_only [OF this] show "cerr st' = cerr st"
    by (simp add: dir_calls_only_def)
qed

theorem searchFile_skips_unopenable_witness:
  "(\<exists>st'. searchFile demo_os ''root/locked'' ''a.txt'' blank = Some st'
       \<and> cout st' = cout blank \<and> cerr st' = cerr blank
       \<and> calls st' = calls blank @ [Opendir ''root/locked''])
   \<and> searchFile demo_os ''root'' ''a.txt'' blank
     = Option.bind
        (readdir_loop (search_entry demo_os ''root'' ''a.txt'')
           [dot, dotdot, \<lparr>d_name = ''sub'', d_type = DT_DIR\<rparr>,
            \<lparr>d_name = ''a.txt'', d_type = DT_REG\<rparr>] (logc (Opendir ''root'') blank))
        (\<lambda>s. Option.bind
               (readdir_loop (search_entry demo_os ''root'' ''a.txt'')
                  [\<lparr>d_name = ''link'', d_type = DT_LNK\<rparr>] (logc (Opendir ''root/locked'') s))
               (\<lambda>s. Some (closedir s)))
   \<and> searchFile demo_os ''root'' ''a.txt'' blank
     = Some \<lparr>cout = ''Found: root/sub/a.txt\<newline>Found: root/a.txt\<newline>'', cerr = [],
             calls = [Opendir ''root'', Opendir ''root/sub'', Closedir,
                      Opendir ''root/locked'', Closedir]\<rparr>
   \<and> cerr \<lparr>cout = ''Found: root/sub/a.txt\<newline>Found: root/a.txt\<newline>'', cerr = [],
             calls = [Opendir ''root'', Opendir ''root/sub'', Closedir,
                      Opendir ''root/locked'', Closedir]\<rparr> = cerr blank"
proof -
  have l: "dir_stream demo_os ''root/locked'' = Inl EACCES"
    by (simp add: demo_os_def)
  have r: "dir_stream demo_os ''root''
      = Inr ([dot, dotdot, \<lparr>d_name = ''sub'', d_type = DT_DIR\<rparr>,
              \<lparr>d_name = ''a.txt'', d_type = DT_REG\<rparr>]
             @ \<lparr>d_name = ''locked'', d_type = DT_DIR\<rparr>
             # [\<lparr>d_name = ''link'', d_type = DT_LNK\<rparr>])"
    by (simp add: demo_os_def)
  note inst = searchFile_skips_unopenable
    [where os = demo_os and e = EACCES and target = "''a.txt''" and st = blank]
  have first: "\<exists>st'. searchFile demo_os ''root/locked'' ''a.txt'' blank = Some st'
       \<and> cout st' = cout blank \<and> cerr st' = cerr blank
       \<and> calls st' = calls blank @ [Opendir ''root/locked'']"
    using inst [where dirname = "''root/locked''", THEN conjunct1] l by blast
  have second: "searchFile demo_os ''root'' ''a.txt'' blank
        = Option.bind
        (readdir_loop (search_entry demo_os ''root'' ''a.txt'')
           [dot, dotdot, \<lparr>d_name = ''sub'', d_type = DT_DIR\<rparr>,
            \<lparr>d_name = ''a.txt'', d_type = DT_REG\<rparr>] (logc (Opendir ''root'') blank))
        (\<lambda>s. Option.bind
               (readdir_loop (search_entry demo_os ''root'' ''a.txt'')
                  [\<lparr>d_name = ''link'', d_type = DT_LNK\<rparr>] (logc (Opendir ''root/locked'') s))
               (\<lambda>s. Some (closedir s)))"
    using inst [where dirname = "''root''"
        and entry = "\<lparr>d_name = ''locked'', d_type = DT_DIR\<rparr>"
        and before = "[dot, dotdot, \<lparr>d_name = ''sub'', d_type = DT_DIR\<rparr>,
              \<lparr>d_name = ''a.txt'', d_type = DT_REG\<rparr>]"
        and after = "[\<lparr>d_name = ''link'', d_type = DT_LNK\<rparr>]",
        THEN conjunct2, THEN conjunct1] l r
    by simp
  have third: "cerr \<lparr>cout = ''Found: root/sub/a.txt\<newline>Found: root/a.txt\<newline>'', cerr = [],
             calls = [Opendir ''root'', Opendir ''root/sub'', Closedir,
                      Opendir ''root/locked'', Closedir]\<rparr> = cerr blank"
    using inst [where dirname = "''root''", THEN conjunct2, THEN conjunct2] demo_search_a
    by blast
  show ?thesis
    using first second third demo_search_a by blast
qed

text \<open>
  Claim C5: \<open>searchFile\<close> opens the directory and runs \<open>search_entry\<close> on each entry.
  For an entry other than \<open>.\<close> and \<open>..\<close> the type hint alone decides: with the hint
  \<open>DT_DIR\<close> the entry is searched as a directory and that is all, its name is not
  compared; with any other hint, a symbolic link to a directory included, the name is
  compared with the target and nothing is opened. The only calls a search makes are
  \<open>opendir\<close> and \<open>closedir\<close>: no \<open>lstat\<close> looks at an entry again.
\<close>

theorem search_entry_by_type_hint:
  "searchFile os dirname target st =
     (case dir_stream os dirname of
        Inl e \<Rightarrow> Some (logc (Opendir dirname) st)
      | Inr entries \<Rightarrow>
          Option.bind
            (readdir_loop (search_entry os dirname target) entries (logc (Opendir dirname) st))
            (\<lambda>s. Some (closedir s)))
   \<and> (d_name entry \<noteq> ''.'' \<and> d_name entry \<noteq> ''..'' \<and> d_type entry = DT_DIR \<longrightarrow>
        search_entry os dirname target entry s
          = searchFile os (dirname @ ''/'' @ d_name entry) target s)
   \<and> (d_name entry \<noteq> ''.'' \<and> d_name entry \<noteq> ''..'' \<and> d_type entry \<noteq> DT_DIR \<longrightarrow>
        search_entry os dirname target entry s
          = Some (if d_name entry = target
                  then print_out (''Found: '' @ dirname @ ''/'' @ d_name entry @ ''\<newline>'') s
                  else s))
   \<and> (searchFile os dirname target st = Some st' \<longrightarrow>
        (\<exists>cs. calls st' = calls st @ cs
           \<and> list_all (\<lambda>c. c = Closedir \<or> (\<exists>p. c = Opendir p)) cs))"
proof (intro conjI impI)
  show "searchFile os dirname target st =
     (case dir_stream os dirname of
        Inl e \<Rightarrow> Some (logc (Opendir dirname) st)
      | Inr entries \<Rightarrow>
          Option.bind
            (readdir_loop (search_entry os dirname target) entries (logc (Opendir dirname) st))
            (\<lambda>s. Some (closedir s)))"
    by (rule searchFile_body)
next
  assume "d_name entry \<noteq> ''.'' \<and> d_name entry \<noteq> ''..'' \<and> d_type entry = DT_DIR"
  then show "search_entry os dirname target entry s
          = searchFile os (dirname @ ''/'' @ d_name entry) target s"
    by (simp add: search_entry_def)
next
  assume "d_name entry \<noteq> ''.'' \<and> d_name entry \<noteq> ''..'' \<and> d_type entry \<noteq> DT_DIR"
  then show "search_entry os dirname target entry s
          = Some (if d_name entry = target
                  then print_out (''Found: '' @ dirname @ ''/'' @ d_name entry @ ''\<newline>'') s
                  else s)"
    by (simp add: search_entry_def)
next
  assume "searchFile os dirname target st = Some st'"
  from searchFile_dir_calls_only [OF this]
  show "\<exists>cs. calls st' = calls st @ cs
           \<and> list_all (\<lambda>c. c = Closedir \<or> (\<exists>p. c = Opendir p)) cs"
    by (simp add: dir_calls_only_def)
qed

theorem search_entry_by_type_hint_witness:
  "search_entry demo_os ''root'' ''sub'' \<lparr>d_name = ''sub'', d_type = DT_DIR\<rparr> blank
     = Some \<lparr>cout = [], cerr = [], calls = [Opendir ''root/sub'', Closedir]\<rparr>
   \<and> search_entry demo_os ''root'' ''a.txt'' \<lparr>d_name = ''link'', d_type = DT_LNK\<rparr> blank
     = Some blank
   \<and> search_entry demo_os ''root'' ''link'' \<lparr>d_name = ''link'', d_type = DT_LNK\<rparr> blank
     = Some \<lparr>cout = ''Found: root/link\<newline>'', cerr = [], calls = []\<rparr>
   \<and> (\<exists>cs. calls (the (searchFile demo_os ''root'' ''a.txt'' blank)) = calls blank @ cs
         \<and> list_all (\<lambda>c. c = Closedir \<or> (\<exists>p. c = Opendir p)) cs)"
proof -
  note inst = search_entry_by_type_hint [where os = demo_os and dirname = "''root''" and s = blank
      and st = blank]
  have sub: "searchFile demo_os ''root/sub'' ''sub'' blank
     = Some \<lparr>cout = [], cerr = [], calls = [Opendir ''root/sub'', Closedir]\<rparr>"
    by code_simp
  from inst [where entry = "\<lparr>d_name = ''sub'', d_type = DT_DIR\<rparr>" and target = "''sub''",
      THEN conjunct2, THEN conjunct1] sub
  have a: "search_entry demo_os ''root'' ''sub'' \<lparr>d_name = ''sub'', d_type = DT_DIR\<rparr> blank
     = Some \<lparr>cout = [], cerr = [], calls = [Opendir ''root/sub'', Closedir]\<rparr>"
    by simp
  from inst [where entry = "\<lparr>d_name = ''link'', d_type = DT_LNK\<rparr>" and target = "''a.txt''",
      THEN conjunct2, THEN conjunct2, THEN conjunct1]
  have b: "search_entry demo_os ''root'' ''a.txt'' \<lparr>d_name = ''link'', d_type = DT_LNK\<rparr> blank
     = Some blank"
    by simp
  from inst [where entry = "\<lparr>d_name = ''link'', d_type = DT_LNK\<rparr>" and target = "''link''",
      THEN conjunct2, THEN conjunct2, THEN conjunct1]
  have c: "search_entry demo_os ''root'' ''link'' \<lparr>d_name = ''link'', d_type = DT_LNK\<rparr> blank
     = Some \<lparr>cout = ''Found: root/link\<newline>'', cerr = [], calls = []\<rparr>"
    by (simp add: blank_def print_out_def)
  from inst [where target = "''a.txt''"
      and st' = "the (searchFile demo_os ''root'' ''a.txt'' blank)",
      THEN conjunct2, THEN conjunct2, THEN conjunct2] demo_search_a
  have d: "\<exists>cs. calls (the (searchFile demo_os ''root'' ''a.txt'' blank)) = calls blank @ cs
         \<and> list_all (\<lambda>c. c = Closedir \<or> (\<exists>p. c = Opendir p)) cs"
    by simp
  show ?thesis using a b c d by blast
qed









text \<open>
  What the files of a tree are, on the tree of \<open>demo_os\<close>: the files of \<open>sub\<close> stand
  where \<open>sub\<close> stands, before \<open>a.txt\<close>; the directory that does not open has none; the
  symbolic link to a directory is a file.
\<close>

lemma demo_tree_files:
  "presents demo_os ''root'' demo_tree
   \<and> files_in ''root'' demo_tree
       = [(''root/sub/b.txt'', ''b.txt''), (''root/sub/a.txt'', ''a.txt''),
          (''root/a.txt'', ''a.txt''), (''root/link'', ''link'')]
   \<and> reported ''root'' ''a.txt'' demo_tree = [''root/sub/a.txt'', ''root/a.txt'']"
  by code_simp




lemma searchFile_returns_below:
  fixes st :: "'a console_scheme"
  assumes "wf (below os root)"
  shows "\<exists>st'. searchFile os root target st = Some st'"
proof -
  have "(d, root) \<in> (child_rel os)\<^sup>* \<longrightarrow> (\<forall>st :: 'a console_scheme. \<exists>st'. searchFile os d target st = Some st')" for d
    using assms
  proof (induction d rule: wf_induct_rule)
    case (less d)
    show ?case
    proof (intro impI allI)
      fix st :: "'a console_scheme"
      assume reach: "(d, root) \<in> (child_rel os)\<^sup>*"
      show "\<exists>st'. searchFile os d target st = Some st'"
      proof (cases "dir_stream os d")
        case (Inl e)
        then show ?thesis by (simp add: searchFile_body)
      next
        case (Inr entries)
        have "\<exists>s'. readdir_loop (search_entry os d target) entries (logc (Opendir d) st) = Some s'"
        proof (rule readdir_loop_returns)
          fix e and s :: "'a console_scheme"
          assume e: "e \<in> set entries"
          show "\<exists>s'. search_entry os d target e s = Some s'"
          proof (cases "d_name e \<noteq> ''.'' \<and> d_name e \<noteq> ''..'' \<and> d_type e = DT_DIR")
            case True
            with e Inr have c: "(d @ ''/'' @ d_name e, d) \<in> child_rel os"
              by (auto simp: child_rel_def subdirs_def)
            with reach have "(d @ ''/'' @ d_name e, d) \<in> below os root"
              and "(d @ ''/'' @ d_name e, root) \<in> (child_rel os)\<^sup>*"
              by (auto simp: below_def)
            from less.IH [OF this(1)] this(2) True show ?thesis
              by (simp add: search_entry_def)
          next
            case False
            then show ?thesis by (auto simp: search_entry_def Let_def)
          qed
        qed
        with Inr show ?thesis by (auto simp: searchFile_body)
      qed
    qed
  qed
  then show ?thesis by blast
qed

text \<open>
  Claim C10: when the directories below \<open>root\<close> that carry the hint \<open>DT_DIR\<close> admit no
  endless descent, and so when they are finitely many and form no cycle, \<open>searchFile\<close>
  returns. The proof is by induction along the child relation: a call on a directory
  runs the loop over its finite stream once and calls itself on children only.
\<close>

theorem searchFile_terminates:
  "(wf (below os root) \<longrightarrow> (\<exists>st'. searchFile os root target st = Some st'))
   \<and> (finite (below os root) \<and> acyclic (below os root) \<longrightarrow>
        (\<exists>st'. searchFile os root target st = Some st'))"
  using searchFile_returns_below [of os root target st] finite_acyclic_wf [of "below os root"]
  by blast

lemma demo_subdirs:
  "subdirs demo_os d = (if d = ''root'' then [''root/sub'', ''root/locked''] else [])"
  by (simp add: subdirs_def demo_os_def dot_def dotdot_def)

lemma demo_child_rel: "child_rel demo_os = {(''root/sub'', ''root''), (''root/locked'', ''root'')}"
  unfolding child_rel_def demo_subdirs by (auto split: if_splits)

theorem searchFile_terminates_witness:
  "finite (below demo_os ''root'') \<and> acyclic (below demo_os ''root'')
   \<and> wf (below demo_os ''root'')
   \<and> (\<exists>st'. searchFile demo_os ''root'' ''a.txt'' blank = Some st')"
proof -
  have sub: "below demo_os ''root'' \<subseteq> child_rel demo_os"
    by (auto simp: below_def)
  have fin: "finite (child_rel demo_os)"
    by (simp add: demo_child_rel)
  have "child_rel demo_os \<subseteq> measure (\<lambda>p. 20 - length p)"
    by (simp add: demo_child_rel)
  then have "wf (child_rel demo_os)"
    using wf_subset [OF wf_measure] by blast
  then have w: "wf (below demo_os ''root'')"
    using sub wf_subset by blast
  then have a: "acyclic (below demo_os ''root'')"
    by (rule wf_acyclic)
  have f: "finite (below demo_os ''root'')"
    using sub fin finite_subset by blast
  from searchFile_terminates [of demo_os "''root''" "''a.txt''" blank] w f a
  show ?thesis by blast
qed

text \<open>
  Without that condition the search need not return: on the view where every directory
  holds a directory \<open>again\<close> it never does, from whatever root.
\<close>

lemma searchFile_endless:
  fixes st :: "'a console_scheme"
  shows "searchFile endless_os root target st = None"
proof (rule ccontr)
  assume "searchFile endless_os root target st \<noteq> None"
  then obtain st' where run: "searchFile endless_os root target st = Some st'"
    by auto
  have "endless_os \<noteq> endless_os"
  proof (rule searchFile.raw_induct
      [where P = "\<lambda>os dirname target (s :: 'a console_scheme) s'. os \<noteq> endless_os", OF _ run])
    fix rec_call :: "os_view \<Rightarrow> string \<Rightarrow> string \<Rightarrow> 'a console_scheme \<Rightarrow> 'a console_scheme option"
    fix os dirname target and st st' :: "'a console_scheme"
    assume IH: "\<And>os dirname target st y.
        rec_call os dirname target st = Some y \<Longrightarrow> os \<noteq> endless_os"
    assume body: "(case opendir os dirname st of
        (Inl e, st1) \<Rightarrow> Some st1
      | (Inr entries, st1) \<Rightarrow>
          Option.bind
            (readdir_loop
               (\<lambda>entry s.
                  let name = d_name entry in
                  if name = ''.'' \<or> name = ''..'' then Some s
                  else
                    let full = dirname @ ''/'' @ name in
                    if d_type entry = DT_DIR then rec_call os full target s
                    else if name = target
                         then Some (print_out (''Found: '' @ full @ ''\<newline>'') s)
                         else Some s)
               entries st1)
            (\<lambda>s. Some (closedir s))) = Some st'"
    have stream: "dir_stream endless_os dirname
        = Inr [dot, dotdot, \<lparr>d_name = ''again'', d_type = DT_DIR\<rparr>]"
      by (simp add: endless_os_def)
    show "os \<noteq> endless_os"
    proof
      assume "os = endless_os"
      with body obtain s1 s2 where
        "rec_call endless_os (dirname @ ''/'' @ ''again'') target s1 = Some s2"
        by (auto simp: opendir_def stream dot_def dotdot_def Let_def bind_eq_Some_conv)
      from IH [OF this] show False by simp
    qed
  qed
  then show False by simp
qed

lemma endless_below_not_wf: "\<not> wf (below endless_os root)"
  using searchFile_returns_below [of endless_os root "[]" blank] searchFile_endless [of root "[]" blank]
  by auto

subsection \<open>The name space\<close>







lemma node_at_dir: "node_at w q True = Inr (q', node) \<Longrightarrow> \<exists>dm. node = Dir dm"
  by (auto simp: node_at_def split: option.splits inode.splits)

lemma node_at_found: "node_at w q slash = Inr (q', node) \<Longrightarrow> q' = q \<and> map_of (fs w) q = Some node"
  by (auto simp: node_at_def split: option.splits inode.splits if_splits)

subsection \<open>deleteFile\<close>

lemma remove_path_nonempty:
  assumes "resolve w p = Inr (q, Dir dm)" and "has_child (fs w) q"
  shows "\<exists>e. remove_path w p = Inl e"
proof (cases "namei w p")
  case (Inl e)
  with assms show ?thesis by (simp add: resolve_def)
next
  case (Inr nd)
  show ?thesis
  proof (cases nd)
    case Root
    with Inr show ?thesis by (simp add: remove_path_def unlink_def rmdir_def)
  next
    case (Last pp c slash)
    show ?thesis
    proof (cases "c = ''.'' \<or> c = ''..''")
      case True
      with Inr Last show ?thesis by (auto simp: remove_path_def unlink_def rmdir_def)
    next
      case False
      with Inr Last assms(1) have short: "\<not> NAME_MAX < length c"
        and found: "node_at w (pp @ [c]) slash = Inr (q, Dir dm)"
        by (auto simp: resolve_def split: if_splits)
      from node_at_found [OF found] have "q = pp @ [c]" "map_of (fs w) (pp @ [c]) = Some (Dir dm)"
        by simp_all
      with Inr Last False short assms(2) show ?thesis
        by (simp add: remove_path_def unlink_def rmdir_def)
    qed
  qed
qed

lemma remove_path_one:
  assumes "remove_path w p = Inr t'"
  shows "\<exists>q node. resolve w p = Inr (q, node) \<and> t' = AList.delete q (fs w)
           \<and> ((\<exists>fm content. node = File fm content) \<or> \<not> has_child (fs w) q)"
proof (cases "namei w p")
  case (Inl e)
  with assms show ?thesis
    by (auto simp: remove_path_def unlink_def rmdir_def split: if_splits)
next
  case (Inr nd)
  show ?thesis
  proof (cases nd)
    case Root
    with Inr assms show ?thesis by (simp add: remove_path_def unlink_def rmdir_def)
  next
    case (Last pp c slash)
    show ?thesis
    proof (cases "c = ''.'' \<or> c = ''..'' \<or> NAME_MAX < length c")
      case True
      with Inr Last assms show ?thesis
        by (auto simp: remove_path_def unlink_def rmdir_def split: if_splits)
    next
      case False
      show ?thesis
      proof (cases "map_of (fs w) (pp @ [c])")
        case None
        with Inr Last False assms show ?thesis
          by (simp add: remove_path_def unlink_def rmdir_def)
      next
        case (Some node)
        show ?thesis
        proof (cases node)
          case (File fm content)
          with Some Inr Last False assms show ?thesis
            by (auto simp: remove_path_def unlink_def rmdir_def resolve_def node_at_def
                split: if_splits)
        next
          case (Dir m)
          with Some Inr Last False assms show ?thesis
            by (auto simp: remove_path_def unlink_def rmdir_def resolve_def node_at_def
                split: if_splits)
        qed
      qed
    qed
  qed
qed

text \<open>
  When an empty directory does go: its name is a last component other than \<open>.\<close> and
  \<open>..\<close>, its parent may be written, and nothing else makes the operating system refuse.
\<close>

lemma deleteFile_empty_directory:
  assumes "namei w (c_str name) = Inr (Last pp c slash)" and "c \<noteq> ''.''" and "c \<noteq> ''..''"
    and "length c \<le> NAME_MAX"
    and "map_of (fs w) (pp @ [c]) = Some (Dir dm)" and "\<not> has_child (fs w) (pp @ [c])"
    and "permits w Write pp" and "refuses w (Remove (c_str name)) = None"
  shows "fs (deleteFile name w) = AList.delete (pp @ [c]) (fs w)
         \<and> cout (deleteFile name w) = cout w @ ''Deleted: '' @ name @ ''\<newline>''
         \<and> cerr (deleteFile name w) = cerr w"
proof -
  from assms have "remove_path w (c_str name) = Inr (AList.delete (pp @ [c]) (fs w))"
    by (simp add: remove_path_def unlink_def rmdir_def)
  with assms(8) show ?thesis
    by (simp add: deleteFile_def remove_file_def)
qed

text \<open>
  Claim C1 does not hold as it stands: \<open>remove\<close> falls back on \<open>rmdir\<close>, so the name
  of an empty directory is removed and confirmed. Here \<open>d\<close> is an empty directory.
\<close>

theorem deleteFile_empty_directory_counterexample:
  "resolve demo_world (c_str ''d'') = Inr ([''d''], Dir 0x1ED)
   \<and> \<not> has_child (fs demo_world) [''d'']
   \<and> map_of (fs (deleteFile ''d'' demo_world)) [''d''] = None
   \<and> cout (deleteFile ''d'' demo_world) = ''Deleted: d\<newline>''
   \<and> cerr (deleteFile ''d'' demo_world) = []"
  by code_simp

text \<open>
  Claim C1, amended to directories that are not empty: \<open>deleteFile\<close> is not recursive.
  For every name that leads to a directory that is not empty, nothing is removed, nothing
  is printed on \<open>cout\<close> and the reason of the failure goes to \<open>cerr\<close>. Whatever the
  name, the name space is unchanged or has lost the one node the name leads to, a file or
  an empty directory, and nothing else.
\<close>

theorem deleteFile_directory:
  "(resolve w (c_str name) = Inr (p, Dir dm) \<and> has_child (fs w) p \<longrightarrow>
      fs (deleteFile name w) = fs w
      \<and> cout (deleteFile name w) = cout w
      \<and> (\<exists>e. cerr (deleteFile name w) = cerr w @ ''remove failed: '' @ strerror e @ ''\<newline>''))
   \<and> (fs (deleteFile name w) = fs w
       \<or> (\<exists>q node. resolve w (c_str name) = Inr (q, node)
             \<and> fs (deleteFile name w) = AList.delete q (fs w)
             \<and> ((\<exists>fm content. node = File fm content) \<or> \<not> has_child (fs w) q)))"
proof (intro conjI impI)
  assume a: "resolve w (c_str name) = Inr (p, Dir dm) \<and> has_child (fs w) p"
  then obtain e where e: "remove_path w (c_str name) = Inl e"
    using remove_path_nonempty by blast
  then show "fs (deleteFile name w) = fs w" "cout (deleteFile name w) = cout w"
    "\<exists>e. cerr (deleteFile name w) = cerr w @ ''remove failed: '' @ strerror e @ ''\<newline>''"
    by (auto simp: deleteFile_def remove_file_def)
next
  show "fs (deleteFile name w) = fs w
       \<or> (\<exists>q node. resolve w (c_str name) = Inr (q, node)
             \<and> fs (deleteFile name w) = AList.delete q (fs w)
             \<and> ((\<exists>fm content. node = File fm content) \<or> \<not> has_child (fs w) q))"
  proof (cases "remove_path w (c_str name)")
    case (Inl e)
    then show ?thesis by (simp add: deleteFile_def remove_file_def)
  next
    case (Inr t')
    show ?thesis
    proof (cases "refuses w (Remove (c_str name))")
      case None
      with remove_path_one [OF Inr] Inr show ?thesis
        by (simp add: deleteFile_def remove_file_def)
    next
      case (Some r)
      with Inr show ?thesis by (simp add: deleteFile_def remove_file_def)
    qed
  qed
qed

theorem deleteFile_directory_witness:
  "fs (deleteFile ''e'' demo_world) = fs demo_world
   \<and> cout (deleteFile ''e'' demo_world) = cout demo_world
   \<and> (\<exists>e. cerr (deleteFile ''e'' demo_world)
           = cerr demo_world @ ''remove failed: '' @ strerror e @ ''\<newline>'')
   \<and> (\<exists>q node. resolve demo_world (c_str ''g'') = Inr (q, node)
         \<and> fs (deleteFile ''g'' demo_world) = AList.delete q (fs demo_world)
         \<and> ((\<exists>fm content. node = File fm content) \<or> \<not> has_child (fs demo_world) q))"
proof -
  have a: "resolve demo_world (c_str ''e'') = Inr ([''e''], Dir 0x1ED)
      \<and> has_child (fs demo_world) [''e'']"
    by code_simp
  have b: "fs (deleteFile ''g'' demo_world) \<noteq> fs demo_world"
    by code_simp
  from deleteFile_directory [where w = demo_world and name = "''e''" and p = "[''e'']"
      and dm = "0x1ED", THEN conjunct1] a
  have first: "fs (deleteFile ''e'' demo_world) = fs demo_world
   \<and> cout (deleteFile ''e'' demo_world) = cout demo_world
   \<and> (\<exists>e. cerr (deleteFile ''e'' demo_world)
           = cerr demo_world @ ''remove failed: '' @ strerror e @ ''\<newline>'')"
    by blast
  from deleteFile_directory [where w = demo_world and name = "''g''", THEN conjunct2] b
  have second: "\<exists>q node. resolve demo_world (c_str ''g'') = Inr (q, node)
         \<and> fs (deleteFile ''g'' demo_world) = AList.delete q (fs demo_world)
         \<and> ((\<exists>fm content. node = File fm content) \<or> \<not> has_child (fs demo_world) q)"
    by blast
  from first second show ?thesis by blast
qed

subsection \<open>createFile\<close>








text \<open>
  When the creation does succeed: the name leads to a last component, with no slash
  after it and not longer than a name may be, that does not exist in a directory which may
  be written, and nothing else makes the operating system refuse.
\<close>

lemma fopen_wx_succeeds:
  assumes "namei w p = Inr (Last pp c False)" and "c \<noteq> ''.''" and "c \<noteq> ''..''"
    and "length c \<le> NAME_MAX" and "map_of (fs w) (pp @ [c]) = None"
    and "permits w Write pp" and "refuses w (Fopen p ''wx'') = None"
  shows "fst (fopen_wx p w) = Inr ()"
  using assms by (simp add: fopen_wx_def open_excl_def)






text \<open>
  What the limits on the length of names do to \<open>createFile\<close>: a name of 256 bytes leads
  to nothing that exists, and is refused as too long.
\<close>

lemma createFile_long_name:
  "resolve demo_world (c_str (replicate 256 CHR ''n'')) = Inl ENAMETOOLONG
   \<and> fs (createFile (replicate 256 CHR ''n'') demo_world) = fs demo_world
   \<and> cout (createFile (replicate 256 CHR ''n'') demo_world) = []
   \<and> cerr (createFile (replicate 256 CHR ''n'') demo_world)
       = ''fopen failed: File name too long\<newline>''"
  by code_simp

text \<open>
  What a zero byte in the name does: the C library sees the name up to it, the program
  prints all of it.
\<close>

lemma createFile_zero_byte:
  "fs (createFile (''h'' @ [CHR 0x00] @ ''x'') demo_world)
     = ([''h''], File 0x1A4 []) # fs demo_world
   \<and> cout (createFile (''h'' @ [CHR 0x00] @ ''x'') demo_world)
       = ''File created: h'' @ [CHR 0x00] @ ''x\<newline>''
   \<and> calls (createFile (''h'' @ [CHR 0x00] @ ''x'') demo_world) = [Fopen ''h'' ''wx'', Fclose]"
  by code_simp

subsection \<open>changeDirectory\<close>

text \<open>
  What \<open>changeDirectory\<close> does: when \<open>chdir\<close> fails, the working directory and the name
  space are unchanged and the reason goes to \<open>cerr\<close>; when it succeeds, the working
  directory is the directory the path leads to, and its absolute path is printed provided
  it is shorter than 512 bytes.
\<close>

lemma changeDirectory_failure:
  assumes "fst (chdir (c_str p) w) = Inl e"
  shows "cwd (changeDirectory p w) = cwd w \<and> fs (changeDirectory p w) = fs w
         \<and> cout (changeDirectory p w) = cout w
         \<and> cerr (changeDirectory p w) = cerr w @ ''chdir failed: '' @ strerror e @ ''\<newline>''"
  using assms
  by (cases "chdir (c_str p) w")
    (auto simp: changeDirectory_def chdir_def Let_def
      split: sum.splits prod.splits inode.splits if_splits)

lemma changeDirectory_success:
  assumes "resolve w (c_str p) = Inr (q, Dir dm)" and "permits w Search q"
  shows "cwd (changeDirectory p w) = q \<and> cerr (changeDirectory p w) = cerr w
         \<and> cout (changeDirectory p w)
             = cout w @ ''Changed directory to: ''
               @ (if length (path_text q) < 512 then path_text q else uninit w) @ ''\<newline>''"
  using assms
  by (auto simp: changeDirectory_def chdir_def getcwd_def Let_def logc_def print_out_def)

text \<open>
  Claim C7 says that after a successful change the new absolute working directory is read
  again and printed. At a working directory whose absolute path has 512 bytes the change
  succeeds, \<open>getcwd\<close> fails for want of room, and what is printed is not the path but
  what the buffer held before.
\<close>

theorem changeDirectory_long_path:
  "cwd (changeDirectory (replicate 255 CHR ''b'') deep_world)
     = [replicate 255 CHR ''a'', replicate 255 CHR ''b'']
   \<and> length (path_text (cwd (changeDirectory (replicate 255 CHR ''b'') deep_world))) = 512
   \<and> cout (changeDirectory (replicate 255 CHR ''b'') deep_world)
       = ''Changed directory to: (what the buffer held)\<newline>''
   \<and> cerr (changeDirectory (replicate 255 CHR ''b'') deep_world) = []
   \<and> calls (changeDirectory (replicate 255 CHR ''b'') deep_world)
       = [Chdir (replicate 255 CHR ''b''), Getcwd 512]"
  by code_simp

end
